theory Spec2Isabelle
  imports Complex_Main "HOL-Library.Signed_Division"
begin

section \<open>Data shared by the detectors\<close>

text \<open>
  The development follows \<^verbatim>\<open>source/detectors.cpp\<close>. The inference engine and the vision
  library are external; what the detectors see of them is kept as data:
  \<^item> a \<^verbatim>\<open>float\<close> or \<^verbatim>\<open>double\<close> value is the rational number it denotes (no NaN, no
    infinity), floating-point arithmetic is exact arithmetic on those rationals (rounding is
    not modelled), and a conversion to \<^verbatim>\<open>int\<close> truncates toward zero;
  \<^item> an \<^verbatim>\<open>int\<close> is an unbounded integer (the values are assumed to stay in range), and
    \<^verbatim>\<open>/\<close> on \<^verbatim>\<open>int\<close> is \<open>sdiv\<close>, which truncates toward zero;
  \<^item> a blob is its dimension vector and its flat buffer; an inference request is the map of
    its blobs and the list of calls made on it, in order;
  \<^item> a null \<^verbatim>\<open>request\<close> pointer is \<open>None\<close>;
  \<^item> a throw, a null dereference and a read outside a buffer are values of \<open>error\<close>:
    \<open>LogicError\<close> is \<^verbatim>\<open>std::logic_error\<close>, \<open>EngineError\<close> an exception of the engine;
  \<^item> text that is streamed or concatenated is kept as the list of its pieces.
\<close>

datatype log_item = Str string | Num int | Flt rat

datatype error =
    LogicError "log_item list"
  | EngineError
  | NullPointer
  | OutOfBounds

datatype log_msg = Info "log_item list" | Warn "log_item list" | Cout "log_item list"

datatype engine_call = StartAsync | Infer | Wait | SetBatch int

record blob =
  dims :: "nat list"
  buffer :: "rat list"

record infer_request =
  blobs :: "string \<rightharpoonup> blob"
  calls :: "engine_call list"

record base_detection =
  topoName :: string
  pathToModel :: string
  deviceForInference :: string
  maxBatch :: int
  isBatchDynamic :: bool
  isAsync :: bool
  enablingChecked :: bool
  enabled_cached :: bool
  net :: infer_request
  request :: "infer_request option"
  input :: string
  slog :: "log_msg list"

text \<open>
  \<open>enabled_cached\<close> is the field \<^verbatim>\<open>_enabled\<close>; \<open>net\<close> stands for the executable network,
  kept as the request that \<^verbatim>\<open>CreateInferRequestPtr\<close> hands out; \<open>slog\<close> collects what is
  written to \<^verbatim>\<open>slog\<close> and \<^verbatim>\<open>std::cout\<close>.
\<close>

definition BaseDetection ::
  "string \<Rightarrow> string \<Rightarrow> string \<Rightarrow> int \<Rightarrow> bool \<Rightarrow> bool \<Rightarrow> infer_request \<Rightarrow> base_detection" where
  "BaseDetection topo path device mb dyn async nt =
     \<lparr> topoName = topo, pathToModel = path, deviceForInference = device,
       maxBatch = mb, isBatchDynamic = dyn, isAsync = async,
       enablingChecked = False, enabled_cached = False,
       net = nt, request = None, input = [],
       slog = (if async then [Info [Str ''Use async mode for '', Str topo]] else []) \<rparr>"

definition log_to :: "log_msg \<Rightarrow> 'a base_detection_scheme \<Rightarrow> 'a base_detection_scheme" where
  "log_to m s = s\<lparr>slog := slog s @ [m]\<rparr>"

definition enabled :: "'a base_detection_scheme \<Rightarrow> bool \<times> 'a base_detection_scheme" where
  "enabled s =
     (if \<not> enablingChecked s then
        let en = (pathToModel s \<noteq> []);
            s1 = s\<lparr>enabled_cached := en\<rparr>;
            s2 = (if \<not> en then log_to (Info [Str (topoName s1), Str '' DISABLED'']) s1 else s1);
            s3 = s2\<lparr>enablingChecked := True\<rparr>
        in (enabled_cached s3, s3)
      else (enabled_cached s, s))"

definition call_request :: "engine_call \<Rightarrow> infer_request \<Rightarrow> infer_request" where
  "call_request c r = r\<lparr>calls := calls r @ [c]\<rparr>"

definition submitRequest :: "'a base_detection_scheme \<Rightarrow> 'a base_detection_scheme" where
  "submitRequest s =
     (let (en, s1) = enabled s in
      case request s1 of
        None \<Rightarrow> s1
      | Some r \<Rightarrow>
          if \<not> en then s1
          else if isAsync s1 then s1\<lparr>request := Some (call_request StartAsync r)\<rparr>
          else s1\<lparr>request := Some (call_request Infer r)\<rparr>)"

definition wait :: "'a base_detection_scheme \<Rightarrow> 'a base_detection_scheme" where
  "wait s =
     (let (en, s1) = enabled s in
      case request s1 of
        None \<Rightarrow> s1
      | Some r \<Rightarrow>
          if \<not> en \<or> \<not> isAsync s1 then s1
          else s1\<lparr>request := Some (call_request Wait r)\<rparr>)"

section \<open>Numbers\<close>

definition to_int :: "rat \<Rightarrow> int" where
  \<comment> \<open>conversion of a floating-point value to \<^verbatim>\<open>int\<close>: the fraction is dropped\<close>
  "to_int q = (if q < 0 then - \<lfloor>- q\<rfloor> else \<lfloor>q\<rfloor>)"

definition read_at :: "rat list \<Rightarrow> int \<Rightarrow> error + rat" where
  \<comment> \<open>\<^verbatim>\<open>buf[k]\<close> on a float buffer; a read outside the buffer is an error value\<close>
  "read_at buf k =
     (if 0 \<le> k \<and> k < int (length buf) then Inr (buf ! nat k) else Inl OutOfBounds)"

section \<open>Face detection\<close>

record rect =
  rect_x :: int
  rect_y :: int
  rect_width :: int
  rect_height :: int

record result =
  label :: int
  confidence :: rat
  location :: rect

record mat =
  cols :: int
  rows :: int
  pixels :: "nat list"

record face_detection = base_detection +
  output_name :: string
  detectionThreshold :: rat
  doRawOutputMessages :: bool
  maxProposalCount :: int
  objectSize :: int
  enquedFrames :: int
  width :: int
  height :: int
  bb_enlarge_coefficient :: rat
  resultsFetched :: bool
  labels :: "string list"
  results :: "result list"

definition FaceDetection ::
  "string \<Rightarrow> string \<Rightarrow> int \<Rightarrow> bool \<Rightarrow> bool \<Rightarrow> rat \<Rightarrow> bool \<Rightarrow> infer_request \<Rightarrow> face_detection" where
  "FaceDetection path device mb dyn async threshold raw nt =
     base_detection.extend (BaseDetection ''Face Detection'' path device mb dyn async nt)
       (face_detection.fields [] threshold raw 0 0 0 0 0 (12 / 10) False [] [])"

text \<open>
  The constructor leaves \<^verbatim>\<open>maxProposalCount\<close> and \<^verbatim>\<open>objectSize\<close> uninitialised; they are
  \<open>0\<close> here until \<open>fd_read\<close> sets them.
\<close>

definition fd_submitRequest :: "face_detection \<Rightarrow> face_detection" where
  "fd_submitRequest s =
     (if enquedFrames s = 0 then s
      else submitRequest (s\<lparr>enquedFrames := 0, resultsFetched := False, results := []\<rparr>))"

definition fd_enqueue ::
  "(mat \<Rightarrow> blob \<Rightarrow> int \<Rightarrow> blob) \<Rightarrow> mat \<Rightarrow> face_detection \<Rightarrow> error + face_detection" where
  \<comment> \<open>\<open>matU8ToBlob\<close> (in \<^verbatim>\<open>samples/ocv_common.hpp\<close>) is a parameter: image, blob and batch
      index to the blob written\<close>
  "fd_enqueue matU8ToBlob frame s =
     (let (en, s1) = enabled s in
      if \<not> en then Inr s1
      else
        let r = (case request s1 of None \<Rightarrow> net s1 | Some r \<Rightarrow> r);
            s2 = s1\<lparr>request := Some r, width := cols frame, height := rows frame\<rparr>
        in case blobs r (input s2) of
             None \<Rightarrow> Inl EngineError
           | Some inputBlob \<Rightarrow>
               Inr (s2\<lparr>request :=
                          Some (r\<lparr>blobs := (blobs r)(input s2 \<mapsto> matU8ToBlob frame inputBlob 0)\<rparr>),
                        enquedFrames := 1\<rparr>))"

definition raw_location :: "int \<Rightarrow> int \<Rightarrow> rat \<Rightarrow> rat \<Rightarrow> rat \<Rightarrow> rat \<Rightarrow> rect" where
  \<comment> \<open>lines 210 to 213: the scaled box, each coordinate stored into an \<^verbatim>\<open>int\<close> field\<close>
  "raw_location w h d3 d4 d5 d6 =
     (let lx = to_int (d3 * of_int w);
          ly = to_int (d4 * of_int h);
          lw = to_int (d5 * of_int w - of_int lx);
          lh = to_int (d6 * of_int h - of_int ly)
      in \<lparr>rect_x = lx, rect_y = ly, rect_width = lw, rect_height = lh\<rparr>)"

definition enlarge :: "rat \<Rightarrow> rect \<Rightarrow> rect" where
  \<comment> \<open>lines 216 to 231: make the box square and enlarge it\<close>
  "enlarge coef loc =
     (let bb_width = rect_width loc;
          bb_height = rect_height loc;
          bb_center_x = rect_x loc + bb_width sdiv 2;
          bb_center_y = rect_y loc + bb_height sdiv 2;
          max_of_sizes = max bb_width bb_height;
          bb_new_width = to_int (coef * of_int max_of_sizes);
          bb_new_height = to_int (coef * of_int max_of_sizes)
      in \<lparr>rect_x = bb_center_x - bb_new_width sdiv 2,
          rect_y = bb_center_y - bb_new_height sdiv 2,
          rect_width = bb_new_width,
          rect_height = bb_new_height\<rparr>)"

definition read_head :: "rat list \<Rightarrow> int \<Rightarrow> error + (rat \<times> rat \<times> rat)" where
  \<comment> \<open>the reads of lines 201 to 204, at offsets 0, 1 and 2 of an entry\<close>
  "read_head det b =
     (case read_at det (b + 0) of Inl e \<Rightarrow> Inl e | Inr image_id \<Rightarrow>
       (case read_at det (b + 1) of Inl e \<Rightarrow> Inl e | Inr lab \<Rightarrow>
         (case read_at det (b + 2) of Inl e \<Rightarrow> Inl e | Inr conf \<Rightarrow>
            Inr (image_id, lab, conf))))"

definition read_box :: "rat list \<Rightarrow> int \<Rightarrow> error + (rat \<times> rat \<times> rat \<times> rat)" where
  \<comment> \<open>the reads of lines 210 to 213, at offsets 3 to 6 of an entry\<close>
  "read_box det b =
     (case read_at det (b + 3) of Inl e \<Rightarrow> Inl e | Inr d3 \<Rightarrow>
       (case read_at det (b + 4) of Inl e \<Rightarrow> Inl e | Inr d4 \<Rightarrow>
         (case read_at det (b + 5) of Inl e \<Rightarrow> Inl e | Inr d5 \<Rightarrow>
           (case read_at det (b + 6) of Inl e \<Rightarrow> Inl e | Inr d6 \<Rightarrow>
              Inr (d3, d4, d5, d6)))))"

definition raw_message :: "face_detection \<Rightarrow> int \<Rightarrow> result \<Rightarrow> log_msg" where
  "raw_message s i r =
     Cout [Str ''['', Num i, Str '','', Num (label r), Str ''] element, prob = '',
           Flt (confidence r), Str ''    ('', Num (rect_x (location r)), Str '','',
           Num (rect_y (location r)), Str '')-('', Num (rect_width (location r)), Str '','',
           Num (rect_height (location r)), Str '')'',
           Str (if confidence r > detectionThreshold s then '' WILL BE RENDERED!'' else [])]"

function fetch_loop :: "rat list \<Rightarrow> int \<Rightarrow> face_detection \<Rightarrow> error + face_detection" where
  "fetch_loop detections i s =
     (if i < maxProposalCount s then
        (case read_head detections (i * objectSize s) of
           Inl e \<Rightarrow> Inl e
         | Inr (image_id, lab, conf) \<Rightarrow>
             if conf \<le> detectionThreshold s then fetch_loop detections (i + 1) s
             else
              (case read_box detections (i * objectSize s) of
                 Inl e \<Rightarrow> Inl e
               | Inr (d3, d4, d5, d6) \<Rightarrow>
                   let r = \<lparr>label = to_int lab, confidence = conf,
                            location = enlarge (bb_enlarge_coefficient s)
                                         (raw_location (width s) (height s) d3 d4 d5 d6)\<rparr>
                   in if image_id < 0 then Inr s
                      else
                        let s1 = (if doRawOutputMessages s
                                  then log_to (raw_message s i r) s else s)
                        in fetch_loop detections (i + 1) (s1\<lparr>results := results s1 @ [r]\<rparr>)))
      else Inr s)"
  by pat_completeness auto
termination
  by (relation "measure (\<lambda>(detections, i, s). nat (maxProposalCount s - i))")
     (auto simp: log_to_def)

definition fetchResults :: "face_detection \<Rightarrow> error + face_detection" where
  "fetchResults s =
     (let (en, s1) = enabled s in
      if \<not> en then Inr s1
      else
        let s2 = s1\<lparr>results := []\<rparr> in
        if resultsFetched s2 then Inr s2
        else
          let s3 = s2\<lparr>resultsFetched := True\<rparr> in
          case request s3 of
            None \<Rightarrow> Inl NullPointer
          | Some r \<Rightarrow>
              (case blobs r (output_name s3) of
                 None \<Rightarrow> Inl EngineError
               | Some b \<Rightarrow> fetch_loop (buffer b) 0 s3))"

text \<open>
  The values of entry \<open>i\<close> of the detection buffer, for stating what \<open>fetch_loop\<close> retains;
  they are read at the offsets the loop uses.
\<close>

definition image_id_of :: "face_detection \<Rightarrow> rat list \<Rightarrow> int \<Rightarrow> rat" where
  "image_id_of s det i = det ! nat (i * objectSize s + 0)"

definition confidence_of :: "face_detection \<Rightarrow> rat list \<Rightarrow> int \<Rightarrow> rat" where
  "confidence_of s det i = det ! nat (i * objectSize s + 2)"

definition raw_box_of :: "face_detection \<Rightarrow> rat list \<Rightarrow> int \<Rightarrow> rect" where
  "raw_box_of s det i =
     raw_location (width s) (height s)
       (det ! nat (i * objectSize s + 3)) (det ! nat (i * objectSize s + 4))
       (det ! nat (i * objectSize s + 5)) (det ! nat (i * objectSize s + 6))"

definition result_of :: "face_detection \<Rightarrow> rat list \<Rightarrow> int \<Rightarrow> result" where
  "result_of s det i =
     \<lparr>label = to_int (det ! nat (i * objectSize s + 1)),
      confidence = confidence_of s det i,
      location = enlarge (bb_enlarge_coefficient s) (raw_box_of s det i)\<rparr>"

definition retained :: "face_detection \<Rightarrow> rat list \<Rightarrow> int \<Rightarrow> int list" where
  \<comment> \<open>the entries from \<open>i\<close> on that end up in \<open>results\<close>: those above the threshold, up to
      the first of them with a negative \<open>image_id\<close>\<close>
  "retained s det i =
     takeWhile (\<lambda>j. \<not> image_id_of s det j < 0)
       (filter (\<lambda>j. detectionThreshold s < confidence_of s det j) [i..maxProposalCount s - 1])"

definition buffer_covers :: "face_detection \<Rightarrow> rat list \<Rightarrow> bool" where
  \<comment> \<open>the buffer holds \<open>maxProposalCount\<close> entries of \<open>objectSize = 7\<close> floats\<close>
  "buffer_covers s det \<longleftrightarrow> objectSize s = 7 \<and> maxProposalCount s * 7 \<le> int (length det)"

definition same_config :: "face_detection \<Rightarrow> face_detection \<Rightarrow> bool" where
  \<comment> \<open>the two states differ at most in \<open>results\<close> and in what has been printed\<close>
  "same_config s s' \<longleftrightarrow> (\<exists>rs l. s' = s\<lparr>results := rs, slog := l\<rparr>)"


section \<open>Facial landmarks detection\<close>

record facial_landmarks_detection = base_detection +
  outputFacialLandmarksBlobName :: string
  enquedFaces :: int

definition FacialLandmarksDetection ::
  "string \<Rightarrow> string \<Rightarrow> int \<Rightarrow> bool \<Rightarrow> bool \<Rightarrow> infer_request \<Rightarrow> facial_landmarks_detection" where
  "FacialLandmarksDetection path device mb dyn async nt =
     base_detection.extend (BaseDetection ''Facial Landmarks'' path device mb dyn async nt)
       (facial_landmarks_detection.fields ''align_fc3'' 0)"

definition lm_submitRequest ::
  "facial_landmarks_detection \<Rightarrow> error + facial_landmarks_detection" where
  "lm_submitRequest s =
     (if enquedFaces s = 0 then Inr s
      else if isBatchDynamic s then
        (case request s of
           None \<Rightarrow> Inl NullPointer
         | Some r \<Rightarrow>
             Inr ((submitRequest (s\<lparr>request := Some (call_request (SetBatch (enquedFaces s)) r)\<rparr>))
                    \<lparr>enquedFaces := 0\<rparr>))
      else Inr ((submitRequest s)\<lparr>enquedFaces := 0\<rparr>))"

definition lm_enqueue ::
  "(mat \<Rightarrow> blob \<Rightarrow> int \<Rightarrow> blob) \<Rightarrow> mat \<Rightarrow> facial_landmarks_detection
     \<Rightarrow> error + facial_landmarks_detection" where
  "lm_enqueue matU8ToBlob face s =
     (let (en, s1) = enabled s in
      if \<not> en then Inr s1
      else if enquedFaces s1 = maxBatch s1 then
        Inr (log_to (Warn [Str ''Number of detected faces more than maximum('', Num (maxBatch s1),
                           Str '') processed by Facial Landmarks estimator'']) s1)
      else
        let r = (case request s1 of None \<Rightarrow> net s1 | Some r \<Rightarrow> r);
            s2 = s1\<lparr>request := Some r\<rparr>
        in case blobs r (input s2) of
             None \<Rightarrow> Inl EngineError
           | Some inputBlob \<Rightarrow>
               Inr (s2\<lparr>request :=
                          Some (r\<lparr>blobs := (blobs r)
                                   (input s2 \<mapsto> matU8ToBlob face inputBlob (enquedFaces s2))\<rparr>),
                        enquedFaces := enquedFaces s2 + 1\<rparr>))"

definition read_at64 :: "rat list \<Rightarrow> nat \<Rightarrow> error + rat" where
  \<comment> \<open>\<^verbatim>\<open>buf[k]\<close> for an offset \<open>k\<close> of type \<^verbatim>\<open>unsigned long\<close>\<close>
  "read_at64 buf k = (if k < length buf then Inr (buf ! k) else Inl OutOfBounds)"

definition offset64 :: "nat \<Rightarrow> nat \<Rightarrow> int \<Rightarrow> nat" where
  \<comment> \<open>\<^verbatim>\<open>i + n_lm * idx\<close> in 64-bit unsigned arithmetic, \<open>idx\<close> converted from \<^verbatim>\<open>int\<close>\<close>
  "offset64 i n_lm idx = (i + n_lm * nat (idx mod 2 ^ 64)) mod 2 ^ 64"

function landmarks_loop ::
  "rat list \<Rightarrow> nat \<Rightarrow> int \<Rightarrow> nat \<Rightarrow> rat list \<Rightarrow> error + rat list" where
  "landmarks_loop normed_coordinates n_lm idx i normedLandmarks =
     (if i < n_lm then
        (case read_at64 normed_coordinates (offset64 i n_lm idx) of
           Inl e \<Rightarrow> Inl e
         | Inr v \<Rightarrow> landmarks_loop normed_coordinates n_lm idx (i + 1) (normedLandmarks @ [v]))
      else Inr normedLandmarks)"
  by pat_completeness auto
termination
  by (relation "measure (\<lambda>(normed_coordinates, n_lm, idx, i, normedLandmarks). n_lm - i)") auto

definition landmarks_at :: "facial_landmarks_detection \<Rightarrow> int \<Rightarrow> error + rat list" where
  \<comment> \<open>\<^verbatim>\<open>operator[]\<close>\<close>
  "landmarks_at s idx =
     (case request s of
        None \<Rightarrow> Inl NullPointer
      | Some r \<Rightarrow>
          (case blobs r (outputFacialLandmarksBlobName s) of
             None \<Rightarrow> Inl EngineError
           | Some landmarksBlob \<Rightarrow>
               (case dims landmarksBlob of
                  [] \<Rightarrow> Inl OutOfBounds
                | n_lm # _ \<Rightarrow> landmarks_loop (buffer landmarksBlob) n_lm idx 0 [])))"

definition faces_inv :: "facial_landmarks_detection \<Rightarrow> bool" where
  "faces_inv s \<longleftrightarrow> 0 \<le> enquedFaces s \<and> enquedFaces s \<le> maxBatch s"

section \<open>Network metadata and the two \<^verbatim>\<open>read\<close> functions\<close>

text \<open>
  What \<^verbatim>\<open>CNNNetReader\<close> delivers for the model file is an argument of \<open>fd_read\<close> and
  \<open>lm_read\<close>: the input and output maps in key order, and the layers by name. An attribute
  of a layer is kept as the integer \<^verbatim>\<open>GetParamAsInt\<close> returns for it; \<open>out_num\<close> is
  \<^verbatim>\<open>_out_num\<close> when the layer object is a \<^verbatim>\<open>FullyConnectedLayer\<close> and \<open>None\<close> when the
  \<^verbatim>\<open>dynamic_cast\<close> gives null; \<open>creator\<close> is \<open>None\<close> when \<^verbatim>\<open>getCreatorLayer().lock()\<close> gives
  null. The text of an exception is kept as the list of the pieces concatenated.
\<close>

datatype precision = U8 | FP32 | UNSPECIFIED

record cnn_layer =
  layer_name :: string
  layer_type :: string
  params :: "string \<rightharpoonup> int"
  out_num :: "nat option"

record data_info =
  tensor_dims :: "nat list"
  creator :: "cnn_layer option"
  data_precision :: precision

record cnn_network =
  batchSize :: int
  inputsInfo :: "(string \<times> precision) list"
  outputsInfo :: "(string \<times> data_info) list"
  layers :: "string \<rightharpoonup> cnn_layer"

definition adjust_labels :: "int \<Rightarrow> string list \<Rightarrow> string list" where
  \<comment> \<open>lines 170 to 175; \<^verbatim>\<open>labels.size()\<close> is unsigned, so the \<^verbatim>\<open>int\<close> is converted\<close>
  "adjust_labels num_classes ls =
     (if int (length ls) \<noteq> num_classes mod 2 ^ 64 then
        (if int (length ls) = (num_classes - 1) mod 2 ^ 64 then ''fake'' # ls else [])
      else ls)"

definition fd_read ::
  "cnn_network \<Rightarrow> string list \<Rightarrow> face_detection \<Rightarrow> error + (cnn_network \<times> face_detection)" where
  "fd_read nw label_file s =
     (let s1 = log_to (Info [Str ''Loading network files for Face Detection'']) s;
          s2 = log_to (Info [Str ''Batch size is set to '', Num (maxBatch s1)]) s1;
          nw1 = nw\<lparr>batchSize := maxBatch s2\<rparr>;
          s3 = s2\<lparr>labels := labels s2 @ label_file\<rparr>;
          s4 = log_to (Info [Str ''Checking Face Detection network inputs'']) s3
      in
      if length (inputsInfo nw1) \<noteq> 1 then
        Inl (LogicError [Str ''Face Detection network should have only one input''])
      else
        let nw2 = nw1\<lparr>inputsInfo := [(fst (hd (inputsInfo nw1)), U8)]\<rparr>;
            s5 = log_to (Info [Str ''Checking Face Detection network outputs'']) s4
        in
        if length (outputsInfo nw2) \<noteq> 1 then
          Inl (LogicError [Str ''Face Detection network should have only one output''])
        else
          let oname = fst (hd (outputsInfo nw2));
              odata = snd (hd (outputsInfo nw2));
              s6 = s5\<lparr>output_name := oname\<rparr>
          in
          case layers nw2 oname of
            None \<Rightarrow> Inl EngineError
          | Some outputLayer \<Rightarrow>
              if layer_type outputLayer \<noteq> ''DetectionOutput'' then
                Inl (LogicError [Str ''Face Detection network output layer('',
                                 Str (layer_name outputLayer),
                                 Str '') should be DetectionOutput, but was '',
                                 Str (layer_type outputLayer)])
              else
                (case params outputLayer ''num_classes'' of
                   None \<Rightarrow>
                     Inl (LogicError [Str ''Face Detection network output layer ('', Str oname,
                                      Str '') should have num_classes integer attribute''])
                 | Some num_classes \<Rightarrow>
                     let s7 = s6\<lparr>labels := adjust_labels num_classes (labels s6)\<rparr>;
                         outputDims = tensor_dims odata
                     in
                     if length outputDims \<le> 2 then Inl OutOfBounds
                     else
                       let s8 = s7\<lparr>maxProposalCount := int (outputDims ! 2)\<rparr> in
                       if length outputDims \<le> 3 then Inl OutOfBounds
                       else
                         let s9 = s8\<lparr>objectSize := int (outputDims ! 3)\<rparr> in
                         if objectSize s9 \<noteq> 7 then
                           Inl (LogicError [Str ''Face Detection network output layer should have 7 as a last dimension''])
                         else if length outputDims \<noteq> 4 then
                           Inl (LogicError [Str ''Face Detection network output dimensions not compatible shoulld be 4, but was '',
                                            Num (int (length outputDims))])
                         else
                           let nw3 = nw2\<lparr>outputsInfo := [(oname, odata\<lparr>data_precision := FP32\<rparr>)]\<rparr>;
                               s10 = log_to (Info [Str ''Loading Face Detection model to the '',
                                                   Str (deviceForInference s9), Str '' plugin'']) s9
                           in Inr (nw3, s10\<lparr>input := fst (hd (inputsInfo nw2))\<rparr>)))"

fun check_outputs ::
  "(string \<times> data_info) list \<Rightarrow> (string \<rightharpoonup> bool) \<Rightarrow> string \<Rightarrow> error + (string \<rightharpoonup> bool)" where
  "check_outputs [] layerNames blobName = Inr layerNames"
| "check_outputs (out # rest) layerNames blobName =
     (case creator (snd out) of
        None \<Rightarrow> Inl (LogicError [Str ''Layer pointer is invalid''])
      | Some layer \<Rightarrow>
          if layerNames (layer_name layer) = None then
            Inl (LogicError [Str ''Facial Landmarks Estimation network output layer unknown: '',
                             Str (layer_name layer), Str '', should be '', Str blobName])
          else if layer_type layer \<noteq> ''FullyConnected'' then
            Inl (LogicError [Str ''Facial Landmarks Estimation network output layer ('',
                             Str (layer_name layer), Str '') has invalid type: '',
                             Str (layer_type layer), Str '', should be FullyConnected''])
          else
            (case out_num layer of
               None \<Rightarrow> Inl (LogicError [Str ''Fully connected layer is not valid''])
             | Some n \<Rightarrow>
                 if n \<noteq> 70 then
                   Inl (LogicError [Str ''Facial Landmarks Estimation network output layer ('',
                                    Str (layer_name layer), Str '') has invalid out-size='',
                                    Num (int n), Str '', should be 70''])
                 else check_outputs rest (layerNames(layer_name layer \<mapsto> True)) blobName))"

definition lm_read ::
  "cnn_network \<Rightarrow> facial_landmarks_detection
     \<Rightarrow> error + (cnn_network \<times> facial_landmarks_detection)" where
  "lm_read nw s =
     (let s1 = log_to (Info [Str ''Loading network files for Facial Landmarks Estimation'']) s;
          nw1 = nw\<lparr>batchSize := maxBatch s1\<rparr>;
          s2 = log_to (Info [Str ''Batch size is set to  '', Num (batchSize nw1),
                             Str '' for Facial Landmarks Estimation network'']) s1;
          s3 = log_to (Info [Str ''Checking Facial Landmarks Estimation network inputs'']) s2
      in
      if length (inputsInfo nw1) \<noteq> 1 then
        Inl (LogicError [Str ''Facial Landmarks Estimation network should have only one input''])
      else
        let nw2 = nw1\<lparr>inputsInfo := [(fst (hd (inputsInfo nw1)), U8)]\<rparr>;
            s4 = s3\<lparr>input := fst (hd (inputsInfo nw1))\<rparr>;
            s5 = log_to (Info [Str ''Checking Facial Landmarks Estimation network outputs'']) s4
        in
        if length (outputsInfo nw2) \<noteq> 1 then
          Inl (LogicError [Str ''Facial Landmarks Estimation network should have only one output''])
        else
          let nw3 = nw2\<lparr>outputsInfo :=
                          map (\<lambda>out. (fst out, (snd out)\<lparr>data_precision := FP32\<rparr>)) (outputsInfo nw2)\<rparr>
          in
          case check_outputs (outputsInfo nw3) [outputFacialLandmarksBlobName s5 \<mapsto> False]
                 (outputFacialLandmarksBlobName s5) of
            Inl e \<Rightarrow> Inl e
          | Inr layerNames \<Rightarrow>
              let s6 = log_to (Info [Str ''Loading Facial Landmarks Estimation model to the '',
                                     Str (deviceForInference s5), Str '' plugin'']) s5
              in Inr (nw3, s6\<lparr>enabled_cached := True\<rparr>))"

section \<open>The call timer\<close>

text \<open>
  Times are in milliseconds. The clock reading that \<^verbatim>\<open>high_resolution_clock::now()\<close>
  returns is an argument; a default-constructed time point is \<open>0\<close>.
\<close>

record call_stat =
  number_of_calls :: nat
  total_duration :: rat
  last_call_duration :: rat
  smoothed_duration :: rat
  last_call_start :: rat


definition getSmoothedDuration :: "rat \<Rightarrow> call_stat \<Rightarrow> rat" where
  "getSmoothedDuration t c =
     (if smoothed_duration c < 0 then t - last_call_start c else smoothed_duration c)"

definition getTotalDuration :: "call_stat \<Rightarrow> rat" where
  "getTotalDuration c = total_duration c"









text \<open>
  A detector after \<^verbatim>\<open>read\<close> and one \<^verbatim>\<open>enqueue\<close> of a 100 by 100 frame, with a request whose
  output blob holds five entries: a face over the whole frame, a sentinel below the
  threshold, a face in the middle of the frame, a sentinel above the threshold and one
  more face after it.
\<close>

definition example_detections :: "rat list" where
  "example_detections =
     [0, 1, 9/10, 0, 0, 1, 1,
      -1, 0, 3/10, 0, 0, 0, 0,
      0, 1, 8/10, 1/4, 1/4, 3/4, 3/4,
      -1, 0, 95/100, 0, 0, 0, 0,
      0, 1, 99/100, 1/4, 1/4, 1/2, 1/2]"

definition example_blob :: blob where
  "example_blob = \<lparr>dims = [7, 5, 1, 1], buffer = example_detections\<rparr>"

definition example_request :: infer_request where
  "example_request = \<lparr>blobs = [''detection_out'' \<mapsto> example_blob], calls = [Infer]\<rparr>"

definition example_detector :: face_detection where
  "example_detector =
     (FaceDetection ''face-detection.xml'' ''CPU'' 1 False False (1/2) False
        \<lparr>blobs = Map.empty, calls = []\<rparr>)
     \<lparr>request := Some example_request, output_name := ''detection_out'',
      maxProposalCount := 5, objectSize := 7, width := 100, height := 100\<rparr>"

text \<open>
  A landmarks detector with room for two faces, dynamic batching, and a request whose
  output blob holds three values for each of two faces.
\<close>

definition example_landmarks_blob :: blob where
  "example_landmarks_blob = \<lparr>dims = [3, 2], buffer = [1/10, 2/10, 3/10, 4/10, 5/10, 6/10]\<rparr>"

definition example_landmarks_request :: infer_request where
  "example_landmarks_request =
     \<lparr>blobs = [''data'' \<mapsto> \<lparr>dims = [], buffer = []\<rparr>, ''align_fc3'' \<mapsto> example_landmarks_blob],
      calls = []\<rparr>"

definition example_landmarks :: facial_landmarks_detection where
  "example_landmarks =
     (FacialLandmarksDetection ''landmarks.xml'' ''CPU'' 2 True False example_landmarks_request)
     \<lparr>request := Some example_landmarks_request, input := ''data'',
      enablingChecked := True, enabled_cached := True\<rparr>"

definition example_matU8ToBlob :: "mat \<Rightarrow> blob \<Rightarrow> int \<Rightarrow> blob" where
  "example_matU8ToBlob face b k = b\<lparr>buffer := buffer b @ map of_nat (pixels face)\<rparr>"

text \<open>
  The conditions under which the specification says the two \<^verbatim>\<open>read\<close> functions throw, as
  it lists them, and for the landmarks network the list with the two further checks of
  \<open>check_outputs\<close> added.
\<close>

definition fd_listed_malformed :: "cnn_network \<Rightarrow> bool" where
  "fd_listed_malformed nw \<longleftrightarrow>
     length (inputsInfo nw) \<noteq> 1 \<or> length (outputsInfo nw) \<noteq> 1 \<or>
     (case layers nw (fst (hd (outputsInfo nw))) of
        None \<Rightarrow> False
      | Some l \<Rightarrow> layer_type l \<noteq> ''DetectionOutput'' \<or> params l ''num_classes'' = None) \<or>
     (case tensor_dims (snd (hd (outputsInfo nw))) of
        [] \<Rightarrow> True
      | d # ds \<Rightarrow> last (d # ds) \<noteq> 7 \<or> length (d # ds) \<noteq> 4)"

definition lm_listed_malformed :: "cnn_network \<Rightarrow> bool" where
  "lm_listed_malformed nw \<longleftrightarrow>
     length (inputsInfo nw) \<noteq> 1 \<or> length (outputsInfo nw) \<noteq> 1 \<or>
     (case creator (snd (hd (outputsInfo nw))) of
        None \<Rightarrow> False
      | Some l \<Rightarrow>
          layer_name l \<noteq> ''align_fc3'' \<or> layer_type l \<noteq> ''FullyConnected'' \<or>
          (case out_num l of None \<Rightarrow> False | Some n \<Rightarrow> n \<noteq> 70))"

definition lm_malformed :: "cnn_network \<Rightarrow> bool" where
  "lm_malformed nw \<longleftrightarrow>
     length (inputsInfo nw) \<noteq> 1 \<or> length (outputsInfo nw) \<noteq> 1 \<or>
     (case creator (snd (hd (outputsInfo nw))) of
        None \<Rightarrow> True
      | Some l \<Rightarrow>
          layer_name l \<noteq> ''align_fc3'' \<or> layer_type l \<noteq> ''FullyConnected'' \<or>
          (case out_num l of None \<Rightarrow> True | Some n \<Rightarrow> n \<noteq> 70))"

text \<open>
  Networks for the examples: a landmarks network whose only output has the right name and
  type but is not a \<^verbatim>\<open>FullyConnectedLayer\<close> object, one whose output has no creator layer,
  a well-formed one, and a detection network whose output tensor has three dimensions.
\<close>

definition example_fc_layer :: cnn_layer where
  "example_fc_layer =
     \<lparr>layer_name = ''align_fc3'', layer_type = ''FullyConnected'', params = Map.empty,
      out_num = Some 70\<rparr>"

definition landmarks_network :: "cnn_layer option \<Rightarrow> cnn_network" where
  "landmarks_network l =
     \<lparr>batchSize = 1, inputsInfo = [(''data'', UNSPECIFIED)],
      outputsInfo = [(''align_fc3'',
                      \<lparr>tensor_dims = [1, 70], creator = l, data_precision = UNSPECIFIED\<rparr>)],
      layers = (case l of None \<Rightarrow> Map.empty | Some x \<Rightarrow> [layer_name x \<mapsto> x])\<rparr>"

definition example_detection_layer :: cnn_layer where
  "example_detection_layer =
     \<lparr>layer_name = ''detection_out'', layer_type = ''DetectionOutput'',
      params = [''num_classes'' \<mapsto> 2], out_num = None\<rparr>"

definition detection_network :: "nat list \<Rightarrow> cnn_network" where
  "detection_network ds =
     \<lparr>batchSize = 1, inputsInfo = [(''data'', UNSPECIFIED)],
      outputsInfo = [(''detection_out'',
                      \<lparr>tensor_dims = ds, creator = Some example_detection_layer,
                       data_precision = UNSPECIFIED\<rparr>)],
      layers = [''detection_out'' \<mapsto> example_detection_layer]\<rparr>"

section \<open>Facts about the base detector\<close>

lemma enabled_keeps [simp]:
  "request (snd (enabled s)) = request s"
  "isAsync (snd (enabled s)) = isAsync s"
  "maxBatch (snd (enabled s)) = maxBatch s"
  "isBatchDynamic (snd (enabled s)) = isBatchDynamic s"
  "pathToModel (snd (enabled s)) = pathToModel s"
  "net (snd (enabled s)) = net s"
  "input (snd (enabled s)) = input s"
  "base_detection.more (snd (enabled s)) = base_detection.more s"
  by (simp_all add: enabled_def log_to_def Let_def)

lemma enabled_value:
  "fst (enabled s) = (if enablingChecked s then enabled_cached s else pathToModel s \<noteq> [])"
  by (simp add: enabled_def log_to_def Let_def)

lemma request_submitRequest:
  "request (submitRequest s) =
     (case request s of
        None \<Rightarrow> None
      | Some r \<Rightarrow>
          if fst (enabled s)
          then Some (call_request (if isAsync s then StartAsync else Infer) r)
          else Some r)"
  by (cases "request s") (simp_all add: submitRequest_def Let_def split_def)

lemma request_wait:
  "request (wait s) =
     (case request s of
        None \<Rightarrow> None
      | Some r \<Rightarrow>
          if fst (enabled s) \<and> isAsync s then Some (call_request Wait r) else Some r)"
  by (cases "request s") (simp_all add: wait_def Let_def split_def)

text \<open>
  C5. When the detector is enabled and a request exists, \<open>submitRequest\<close> adds exactly one
  call to the request, \<open>StartAsync\<close> if \<open>isAsync\<close> holds and \<open>Infer\<close> otherwise; \<open>wait\<close> adds
  the blocking \<open>Wait\<close> only when the detector is enabled, a request exists and \<open>isAsync\<close>
  holds, and otherwise makes no call on the request.
\<close>

theorem submit_and_wait_follow_isAsync:
  "(fst (enabled s) \<and> request s = Some r \<longrightarrow>
      map_option calls (request (submitRequest s)) =
        Some (calls r @ [if isAsync s then StartAsync else Infer]))
   \<and> (fst (enabled s) \<and> request s = Some r \<and> isAsync s \<longrightarrow>
      map_option calls (request (wait s)) = Some (calls r @ [Wait]))
   \<and> (\<not> (fst (enabled s) \<and> request s \<noteq> None \<and> isAsync s) \<longrightarrow>
      map_option calls (request (wait s)) = map_option calls (request s))"
  by (cases "request s")
     (simp_all add: request_submitRequest request_wait call_request_def)

theorem submit_and_wait_follow_isAsync_witness:
  "fst (enabled (BaseDetection ''Face Detection'' ''fd.xml'' ''CPU'' 1 False True
                  \<lparr>blobs = Map.empty, calls = []\<rparr>
                \<lparr>request := Some \<lparr>blobs = Map.empty, calls = [Infer]\<rparr>\<rparr>))
   \<and> map_option calls
        (request (submitRequest (BaseDetection ''Face Detection'' ''fd.xml'' ''CPU'' 1 False True
                  \<lparr>blobs = Map.empty, calls = []\<rparr>
                \<lparr>request := Some \<lparr>blobs = Map.empty, calls = [Infer]\<rparr>\<rparr>)))
       = Some [Infer, StartAsync]
   \<and> map_option calls
        (request (wait (BaseDetection ''Face Detection'' ''fd.xml'' ''CPU'' 1 False True
                  \<lparr>blobs = Map.empty, calls = []\<rparr>
                \<lparr>request := Some \<lparr>blobs = Map.empty, calls = [Infer]\<rparr>\<rparr>)))
       = Some [Infer, Wait]
   \<and> \<not> isAsync (BaseDetection ''Face Detection'' ''fd.xml'' ''CPU'' 1 False False
                  \<lparr>blobs = Map.empty, calls = []\<rparr>
                \<lparr>request := Some \<lparr>blobs = Map.empty, calls = []\<rparr>\<rparr>)
   \<and> map_option calls
        (request (submitRequest (BaseDetection ''Face Detection'' ''fd.xml'' ''CPU'' 1 False False
                  \<lparr>blobs = Map.empty, calls = []\<rparr>
                \<lparr>request := Some \<lparr>blobs = Map.empty, calls = []\<rparr>\<rparr>)))
       = Some [Infer]
   \<and> map_option calls
        (request (wait (BaseDetection ''Face Detection'' ''fd.xml'' ''CPU'' 1 False False
                  \<lparr>blobs = Map.empty, calls = []\<rparr>
                \<lparr>request := Some \<lparr>blobs = Map.empty, calls = []\<rparr>\<rparr>)))
       = Some []"
  using submit_and_wait_follow_isAsync
          [of "BaseDetection ''Face Detection'' ''fd.xml'' ''CPU'' 1 False True
                 \<lparr>blobs = Map.empty, calls = []\<rparr>
               \<lparr>request := Some \<lparr>blobs = Map.empty, calls = [Infer]\<rparr>\<rparr>"
              "\<lparr>blobs = Map.empty, calls = [Infer]\<rparr>"]
        submit_and_wait_follow_isAsync
          [of "BaseDetection ''Face Detection'' ''fd.xml'' ''CPU'' 1 False False
                 \<lparr>blobs = Map.empty, calls = []\<rparr>
               \<lparr>request := Some \<lparr>blobs = Map.empty, calls = []\<rparr>\<rparr>"
              "\<lparr>blobs = Map.empty, calls = []\<rparr>"]
  by (simp add: enabled_value BaseDetection_def)

section \<open>Facts about the face detector\<close>

lemma read_head_in_range:
  "0 \<le> b \<Longrightarrow> b + 6 < int (length det) \<Longrightarrow>
   read_head det b = Inr (det ! nat b, det ! nat (b + 1), det ! nat (b + 2))"
  by (simp add: read_head_def read_at_def)

lemma read_box_in_range:
  "0 \<le> b \<Longrightarrow> b + 6 < int (length det) \<Longrightarrow>
   read_box det b = Inr (det ! nat (b + 3), det ! nat (b + 4), det ! nat (b + 5), det ! nat (b + 6))"
  by (simp add: read_box_def read_at_def)

lemma retained_step:
  "i < maxProposalCount s \<Longrightarrow>
   retained s det i =
     (if detectionThreshold s < confidence_of s det i
      then (if image_id_of s det i < 0 then [] else i # retained s det (i + 1))
      else retained s det (i + 1))"
  by (simp add: retained_def upto_rec1)

lemma retained_done: "\<not> i < maxProposalCount s \<Longrightarrow> retained s det i = []"
  by (simp add: retained_def)

lemma entry_config [simp]:
  "retained (s\<lparr>results := rs\<rparr>) det i = retained s det i"
  "retained (log_to m s) det i = retained s det i"
  "result_of (s\<lparr>results := rs\<rparr>) det = result_of s det"
  "result_of (log_to m s) det = result_of s det"
  "buffer_covers (s\<lparr>results := rs\<rparr>) det = buffer_covers s det"
  "buffer_covers (log_to m s) det = buffer_covers s det"
  by (simp_all add: retained_def result_of_def buffer_covers_def log_to_def
        image_id_of_def confidence_of_def raw_box_of_def fun_eq_iff)

declare fetch_loop.simps [simp del]

lemma fetch_loop_results:
  "buffer_covers s det \<Longrightarrow> 0 \<le> i \<Longrightarrow>
   \<exists>s'. fetch_loop det i s = Inr s' \<and>
        results s' = results s @ map (result_of s det) (retained s det i)"
proof (induction det i s rule: fetch_loop.induct)
  case (1 det i s)
  show ?case
  proof (cases "i < maxProposalCount s")
    case False
    then show ?thesis by (subst fetch_loop.simps) (simp add: retained_done)
  next
    case True
    from True "1.prems" have rng: "0 \<le> i * objectSize s" "i * objectSize s + 6 < int (length det)"
      by (auto simp: buffer_covers_def)
    note rh = read_head_in_range[OF rng] and rb = read_box_in_range[OF rng]
    show ?thesis
    proof (cases "confidence_of s det i \<le> detectionThreshold s")
      case low: True
      from "1.IH"(1)[OF True rh refl refl] low "1.prems"
      have "\<exists>s'. fetch_loop det (i + 1) s = Inr s' \<and>
        results s' = results s @ map (result_of s det) (retained s det (i + 1))"
        by (simp add: confidence_of_def)
      with True low show ?thesis
        by (subst fetch_loop.simps) (simp add: rh retained_step confidence_of_def)
    next
      case high: False
      show ?thesis
      proof (cases "image_id_of s det i < 0")
        case True
        with \<open>i < maxProposalCount s\<close> high show ?thesis
          by (subst fetch_loop.simps)
             (simp add: rh rb retained_step confidence_of_def image_id_of_def Let_def)
      next
        case nonneg: False
        define r where "r = result_of s det i"
        define s1 where
          "s1 = (if doRawOutputMessages s then log_to (raw_message s i r) s else s)"
        have cfg: "result_of (s1\<lparr>results := results s1 @ [r]\<rparr>) det = result_of s det"
          "retained (s1\<lparr>results := results s1 @ [r]\<rparr>) det (i + 1) = retained s det (i + 1)"
          "results s1 = results s"
          "result_of s1 det = result_of s det"
          "retained s1 det (i + 1) = retained s det (i + 1)"
          by (simp_all add: s1_def) (simp add: log_to_def)
        have step: "fetch_loop det i s = fetch_loop det (i + 1) (s1\<lparr>results := results s1 @ [r]\<rparr>)"
          using \<open>i < maxProposalCount s\<close> high nonneg
          by (subst fetch_loop.simps)
             (simp add: rh rb confidence_of_def image_id_of_def result_of_def raw_box_of_def
                r_def s1_def Let_def)
        have "\<exists>s'. fetch_loop det (i + 1) (s1\<lparr>results := results s1 @ [r]\<rparr>) = Inr s' \<and>
                results s' = results (s1\<lparr>results := results s1 @ [r]\<rparr>) @
                  map (result_of (s1\<lparr>results := results s1 @ [r]\<rparr>) det)
                    (retained (s1\<lparr>results := results s1 @ [r]\<rparr>) det (i + 1))"
          unfolding r_def s1_def result_of_def[of s] confidence_of_def[of s] raw_box_of_def[of s]
        proof (rule "1.IH"(2)[OF \<open>i < maxProposalCount s\<close> rh refl refl _ rb refl refl refl refl _ refl])
        qed (use high nonneg "1.prems" in \<open>simp_all add: confidence_of_def image_id_of_def\<close>)
        then show ?thesis
          using \<open>i < maxProposalCount s\<close> high nonneg
          by (simp add: step cfg retained_step r_def)
      qed
    qed
  qed
qed


lemma enabled_keeps_fd [simp]:
  "resultsFetched (snd (enabled s)) = resultsFetched s"
  "results (snd (enabled s)) = results s"
  "output_name (snd (enabled s)) = output_name s"
  "objectSize (snd (enabled s)) = objectSize s"
  "maxProposalCount (snd (enabled s)) = maxProposalCount s"
  "detectionThreshold (snd (enabled s)) = detectionThreshold s"
  "width (snd (enabled s)) = width s"
  "height (snd (enabled s)) = height s"
  "bb_enlarge_coefficient (snd (enabled s)) = bb_enlarge_coefficient s"
  "enquedFrames (snd (enabled s)) = enquedFrames s"
  by (simp_all add: enabled_def log_to_def Let_def)

lemma enabled_again [simp]:
  "fst (enabled (snd (enabled s))) = fst (enabled s)"
  "enablingChecked (snd (enabled s))"
  by (simp_all add: enabled_def log_to_def Let_def)

lemma same_config_refl: "same_config s s"
  unfolding same_config_def by (rule exI[of _ "results s"], rule exI[of _ "slog s"]) simp

lemma same_config_push:
  "same_config ((if c then log_to m s else s)\<lparr>results := rs\<rparr>) s' \<Longrightarrow> same_config s s'"
  unfolding same_config_def log_to_def by (cases c) auto

lemma fetch_loop_keeps:
  "fetch_loop det i s = Inr s' \<Longrightarrow> same_config s s'"
proof (induction det i s rule: fetch_loop.induct)
  case (1 det i s)
  note eq = fetch_loop.simps[of det i s]
  show ?case
  proof (cases "i < maxProposalCount s")
    case False
    with "1.prems" eq show ?thesis by (simp add: same_config_refl)
  next
    case True
    with "1.prems" eq obtain image_id lab conf
      where rh: "read_head det (i * objectSize s) = Inr (image_id, lab, conf)"
      by (auto split: sum.splits)
    show ?thesis
    proof (cases "conf \<le> detectionThreshold s")
      case low: True
      with "1.prems" eq True rh have "fetch_loop det (i + 1) s = Inr s'" by simp
      from "1.IH"(1)[OF True rh refl refl low this] show ?thesis .
    next
      case high: False
      with "1.prems" eq True rh obtain d3 d4 d5 d6
        where rb: "read_box det (i * objectSize s) = Inr (d3, d4, d5, d6)"
        by (auto split: sum.splits)
      show ?thesis
      proof (cases "image_id < 0")
        case True
        with "1.prems" eq \<open>i < maxProposalCount s\<close> rh rb high show ?thesis
          by (simp add: Let_def same_config_refl)
      next
        case nonneg: False
        from "1.prems" eq \<open>i < maxProposalCount s\<close> rh rb high nonneg
        show ?thesis
          by - (rule same_config_push,
                rule "1.IH"(2)[OF \<open>i < maxProposalCount s\<close> rh refl refl high rb refl refl refl refl nonneg refl],
                simp add: Let_def)
      qed
    qed
  qed
qed


lemma entry_config_enabled [simp]:
  "retained (snd (enabled s)) det i = retained s det i"
  "result_of (snd (enabled s)) det = result_of s det"
  "buffer_covers (snd (enabled s)) det = buffer_covers s det"
  "retained (s\<lparr>resultsFetched := f\<rparr>) det i = retained s det i"
  "result_of (s\<lparr>resultsFetched := f\<rparr>) det = result_of s det"
  "buffer_covers (s\<lparr>resultsFetched := f\<rparr>) det = buffer_covers s det"
  by (simp_all add: retained_def result_of_def buffer_covers_def
        image_id_of_def confidence_of_def raw_box_of_def fun_eq_iff)

lemma fetchResults_run:
  assumes "fst (enabled s)" and "\<not> resultsFetched s"
    and "request s = Some r" and "blobs r (output_name s) = Some b"
  shows "fetchResults s =
           fetch_loop (buffer b) 0 ((snd (enabled s))\<lparr>results := [], resultsFetched := True\<rparr>)"
  using assms by (simp add: fetchResults_def split_def Let_def)

lemma fetchResults_results:
  assumes "fst (enabled s)" and "\<not> resultsFetched s"
    and "request s = Some r" and "blobs r (output_name s) = Some b"
    and "buffer_covers s (buffer b)"
  shows "\<exists>s'. fetchResults s = Inr s' \<and>
              results s' = map (result_of s (buffer b)) (retained s (buffer b) 0)"
  using fetch_loop_results
          [of "(snd (enabled s))\<lparr>results := [], resultsFetched := True\<rparr>" "buffer b" 0]
        assms(5)
  by (simp add: fetchResults_run[OF assms(1-4)])



lemma example_facts:
  "fst (enabled example_detector)"
  "\<not> resultsFetched example_detector"
  "request example_detector = Some example_request"
  "blobs example_request (output_name example_detector) = Some example_blob"
  "buffer_covers example_detector (buffer example_blob)"
  by (simp_all add: example_detector_def example_request_def example_detections_def
        example_blob_def
        FaceDetection_def BaseDetection_def enabled_value buffer_covers_def
        base_detection.extend_def face_detection.fields_def)

lemma example_retained: "retained example_detector example_detections 0 = [0, 2]"
  by (simp add: retained_def example_detector_def example_detections_def
        FaceDetection_def BaseDetection_def upto_rec1
        base_detection.extend_def face_detection.fields_def
        image_id_of_def confidence_of_def)














lemma enabled_cached_after [simp]: "enabled_cached (snd (enabled s)) = fst (enabled s)"
  by (simp add: enabled_def log_to_def Let_def)

lemma submitRequest_keeps_fd:
  "resultsFetched (submitRequest s) = resultsFetched s"
  "results (submitRequest s) = results s"
  "enquedFrames (submitRequest s) = enquedFrames s"
  by (cases "request s"; simp add: submitRequest_def split_def Let_def)+

lemma fd_submitRequest_resets:
  "enquedFrames s \<noteq> 0 \<Longrightarrow>
   \<not> resultsFetched (fd_submitRequest s) \<and> results (fd_submitRequest s) = []"
  by (simp add: fd_submitRequest_def submitRequest_keeps_fd)

lemma fetchResults_fetched:
  assumes "fst (enabled s)" and "fetchResults s = Inr s1"
  shows "fst (enabled s1) \<and> resultsFetched s1"
proof (cases "resultsFetched s")
  case True
  with assms(1) have "fetchResults s = Inr ((snd (enabled s))\<lparr>results := []\<rparr>)"
    by (simp add: fetchResults_def split_def Let_def)
  with assms(2) have "s1 = (snd (enabled s))\<lparr>results := []\<rparr>" by simp
  with assms(1) True show ?thesis
    by (simp add: enabled_value)
next
  case False
  with assms obtain r b where "request s = Some r" "blobs r (output_name s) = Some b"
    by (auto simp: fetchResults_def split_def Let_def split: option.splits)
  from fetchResults_run[OF assms(1) False this] assms(2)
  have "same_config ((snd (enabled s))\<lparr>results := [], resultsFetched := True\<rparr>) s1"
    by (simp add: fetch_loop_keeps)
  then obtain rs l
    where "s1 = (snd (enabled s))\<lparr>results := [], resultsFetched := True\<rparr>\<lparr>results := rs, slog := l\<rparr>"
    unfolding same_config_def by blast
  with assms(1) show ?thesis
    by (simp add: enabled_value)
qed

text \<open>
  C9. With the detector enabled and \<open>resultsFetched\<close> already set, \<open>fetchResults\<close> clears
  \<open>results\<close> and returns; so a second \<open>fetchResults\<close> right after a first one leaves
  \<open>results\<close> empty, whatever the first one fetched. \<open>fd_submitRequest\<close> with a frame
  enqueued is what resets \<open>resultsFetched\<close>.
\<close>

theorem fetchResults_again_discards_results:
  "(fst (enabled s) \<and> resultsFetched s \<longrightarrow>
      fetchResults s = Inr ((snd (enabled s))\<lparr>results := []\<rparr>))
   \<and> (fst (enabled s) \<and> fetchResults s = Inr s1 \<longrightarrow>
      (\<exists>s2. fetchResults s1 = Inr s2 \<and> results s2 = [] \<and> resultsFetched s2))
   \<and> (enquedFrames s \<noteq> 0 \<longrightarrow> \<not> resultsFetched (fd_submitRequest s))"
proof (intro conjI impI)
  assume "fst (enabled s) \<and> resultsFetched s"
  then show "fetchResults s = Inr ((snd (enabled s))\<lparr>results := []\<rparr>)"
    by (simp add: fetchResults_def split_def Let_def)
next
  assume "fst (enabled s) \<and> fetchResults s = Inr s1"
  then have "fst (enabled s1) \<and> resultsFetched s1"
    by (blast dest: fetchResults_fetched)
  then have "fetchResults s1 = Inr ((snd (enabled s1))\<lparr>results := []\<rparr>)"
    by (simp add: fetchResults_def split_def Let_def)
  then show "\<exists>s2. fetchResults s1 = Inr s2 \<and> results s2 = [] \<and> resultsFetched s2"
    using \<open>fst (enabled s1) \<and> resultsFetched s1\<close> by simp
next
  assume "enquedFrames s \<noteq> 0"
  then show "\<not> resultsFetched (fd_submitRequest s)"
    by (simp add: fd_submitRequest_resets)
qed


theorem fetchResults_again_discards_results_witness:
  "(\<exists>s1 s2. fetchResults example_detector = Inr s1 \<and> length (results s1) = 2 \<and>
            fetchResults s1 = Inr s2 \<and> results s2 = [])
   \<and> map_sum id results
        (fetchResults (example_detector\<lparr>resultsFetched := True,
           results := [result_of example_detector example_detections 0]\<rparr>)) = Inr []
   \<and> \<not> resultsFetched (fd_submitRequest (example_detector\<lparr>enquedFrames := 1,
           resultsFetched := True\<rparr>))"
proof (intro conjI)
  from fetchResults_results[OF example_facts] obtain s1
    where s1: "fetchResults example_detector = Inr s1" "length (results s1) = 2"
    by (auto simp: example_blob_def example_retained)
  with fetchResults_again_discards_results[of example_detector s1] example_facts(1)
  show "\<exists>s1 s2. fetchResults example_detector = Inr s1 \<and> length (results s1) = 2 \<and>
            fetchResults s1 = Inr s2 \<and> results s2 = []"
    by blast
next
  have "fst (enabled (example_detector\<lparr>resultsFetched := True,
           results := [result_of example_detector example_detections 0]\<rparr>))"
    using example_facts(1) by (simp add: enabled_value)
  with fetchResults_again_discards_results
         [of "example_detector\<lparr>resultsFetched := True,
                results := [result_of example_detector example_detections 0]\<rparr>"]
  show "map_sum id results
        (fetchResults (example_detector\<lparr>resultsFetched := True,
           results := [result_of example_detector example_detections 0]\<rparr>)) = Inr []"
    by simp
next
  from fetchResults_again_discards_results
         [of "example_detector\<lparr>enquedFrames := 1, resultsFetched := True\<rparr>"]
  show "\<not> resultsFetched (fd_submitRequest (example_detector\<lparr>enquedFrames := 1,
           resultsFetched := True\<rparr>))"
    by simp
qed

section \<open>Facts about the call timer\<close>










section \<open>Facts about the landmarks detector\<close>

declare landmarks_loop.simps [simp del]

lemma offset64_in_range:
  assumes "0 \<le> idx" and "n_lm * nat idx + n_lm \<le> len" and "len < 2 ^ 64" and "i < n_lm"
  shows "offset64 i n_lm idx = i + n_lm * nat idx"
proof -
  define M :: nat where "M = 2 ^ 64"
  from assms(4) have "nat idx \<le> n_lm * nat idx" by simp
  with assms(2,3) have small: "nat idx < M" unfolding M_def by linarith
  from assms(2,3,4) have sum: "i + n_lm * nat idx < M" unfolding M_def by linarith
  from small assms(1) have "idx < int M" by linarith
  with assms(1) have "idx mod int M = idx" by simp
  with sum have "(i + n_lm * nat (idx mod int M)) mod M = i + n_lm * nat idx" by simp
  then show ?thesis by (simp add: offset64_def M_def)
qed

lemma landmarks_loop_in_range:
  "0 \<le> idx \<Longrightarrow> n_lm * nat idx + n_lm \<le> length buf \<Longrightarrow> length buf < 2 ^ 64 \<Longrightarrow>
   landmarks_loop buf n_lm idx i acc =
     Inr (acc @ map (\<lambda>k. buf ! (k + n_lm * nat idx)) [i..<n_lm])"
proof (induction buf n_lm idx i acc rule: landmarks_loop.induct)
  case (1 buf n_lm idx i acc)
  show ?case
  proof (cases "i < n_lm")
    case False
    then show ?thesis by (subst landmarks_loop.simps) simp
  next
    case True
    note off = offset64_in_range[OF "1.prems" True]
    from True "1.prems"(2) have inb: "i + n_lm * nat idx < length buf" by simp
    have rd: "read_at64 buf (offset64 i n_lm idx) = Inr (buf ! (i + n_lm * nat idx))"
      using inb by (simp add: off read_at64_def)
    from True have up: "[i..<n_lm] = i # [i + 1..<n_lm]" by (simp add: upt_rec)
    from "1.IH"[OF True rd "1.prems"] True show ?thesis
      by (subst landmarks_loop.simps) (simp add: rd up)
  qed
qed

lemma landmarks_at_in_range:
  assumes "request s = Some r" and "blobs r (outputFacialLandmarksBlobName s) = Some b"
    and "dims b = n_lm # ds"
    and "0 \<le> idx" and "n_lm * nat idx + n_lm \<le> length (buffer b)"
    and "length (buffer b) < 2 ^ 64"
  shows "landmarks_at s idx = Inr (map (\<lambda>i. buffer b ! (i + n_lm * nat idx)) [0..<n_lm])"
  using assms(1-3) landmarks_loop_in_range[OF assms(4-6), of 0 "[]"]
  by (simp add: landmarks_at_def)

lemma enabled_keeps_lm [simp]:
  "enquedFaces (snd (enabled s)) = enquedFaces s"
  "outputFacialLandmarksBlobName (snd (enabled s)) = outputFacialLandmarksBlobName s"
  by (simp_all add: enabled_def log_to_def Let_def)

lemma submitRequest_keeps_lm:
  "maxBatch (submitRequest s) = maxBatch s"
  by (cases "request s"; simp add: submitRequest_def split_def Let_def)

lemma wait_keeps_lm:
  "maxBatch (wait s) = maxBatch s" "enquedFaces (wait s) = enquedFaces s"
  by (cases "request s"; simp add: wait_def split_def Let_def)+

lemma lm_enqueue_full:
  "fst (enabled s) \<Longrightarrow> enquedFaces s = maxBatch s \<Longrightarrow>
   lm_enqueue m face s =
     Inr (log_to (Warn [Str ''Number of detected faces more than maximum('', Num (maxBatch s),
                        Str '') processed by Facial Landmarks estimator'']) (snd (enabled s)))"
  by (simp add: lm_enqueue_def split_def Let_def)

lemma enabled_checked: "enablingChecked s \<Longrightarrow> snd (enabled s) = s"
  by (simp add: enabled_def)

lemma lm_enqueue_room:
  "fst (enabled s) \<Longrightarrow> enquedFaces s \<noteq> maxBatch s \<Longrightarrow>
   blobs (case request s of None \<Rightarrow> net s | Some r \<Rightarrow> r) (input s) = Some b \<Longrightarrow>
   \<exists>s'. lm_enqueue m face s = Inr s' \<and> enquedFaces s' = enquedFaces s + 1 \<and>
        maxBatch s' = maxBatch s"
  by (cases "request s") (simp_all add: lm_enqueue_def split_def Let_def)

lemma lm_enqueue_inv:
  "faces_inv s \<Longrightarrow> lm_enqueue m face s = Inr s' \<Longrightarrow> faces_inv s'"
  by (auto simp: lm_enqueue_def split_def Let_def faces_inv_def log_to_def
      split: if_splits option.splits)

lemma lm_submitRequest_resets:
  "enquedFaces s \<noteq> 0 \<Longrightarrow> (isBatchDynamic s \<longrightarrow> request s \<noteq> None) \<Longrightarrow>
   \<exists>s'. lm_submitRequest s = Inr s' \<and> enquedFaces s' = 0 \<and> maxBatch s' = maxBatch s"
  by (auto simp: lm_submitRequest_def submitRequest_keeps_lm split: option.splits)

lemma lm_submitRequest_inv:
  "faces_inv s \<Longrightarrow> lm_submitRequest s = Inr s' \<Longrightarrow> faces_inv s'"
  by (auto simp: lm_submitRequest_def faces_inv_def submitRequest_keeps_lm
      split: if_splits option.splits)

lemma lm_read_keeps:
  "lm_read nw s = Inr (nw', s') \<Longrightarrow> enquedFaces s' = enquedFaces s \<and> maxBatch s' = maxBatch s"
  by (auto simp: lm_read_def Let_def log_to_def split: if_splits sum.splits)

lemma lm_enqueue_disabled:
  "\<not> fst (enabled s) \<Longrightarrow> lm_enqueue m face s = Inr (snd (enabled s))"
  by (simp add: lm_enqueue_def split_def)

text \<open>
  C10, as stated, fails: on a disabled detector (here one built with an empty model path)
  \<open>lm_enqueue\<close> returns at once, so with \<open>enquedFaces = 0\<close> and \<open>maxBatch = 2\<close> it does not
  increment \<open>enquedFaces\<close>.
\<close>

theorem lm_enqueue_disabled_no_increment:
  "\<not> fst (enabled (FacialLandmarksDetection [] ''CPU'' 2 True False example_landmarks_request))
   \<and> enquedFaces (FacialLandmarksDetection [] ''CPU'' 2 True False example_landmarks_request) = 0
   \<and> maxBatch (FacialLandmarksDetection [] ''CPU'' 2 True False example_landmarks_request) = 2
   \<and> map_sum id enquedFaces
        (lm_enqueue example_matU8ToBlob \<lparr>cols = 1, rows = 1, pixels = [7]\<rparr>
           (FacialLandmarksDetection [] ''CPU'' 2 True False example_landmarks_request))
       = Inr 0"
  by (simp add: lm_enqueue_def split_def enabled_value FacialLandmarksDetection_def
        BaseDetection_def base_detection.extend_def facial_landmarks_detection.fields_def)

text \<open>
  C10, amended. \<open>faces_inv\<close> is \<open>0 \<le> enquedFaces \<le> maxBatch\<close>. It holds after the
  constructor when \<open>maxBatch\<close> is not negative and is kept by \<open>lm_enqueue\<close>,
  \<open>lm_submitRequest\<close>, \<open>lm_read\<close> and \<open>wait\<close>. On an enabled detector, \<open>lm_enqueue\<close> with
  \<open>enquedFaces = maxBatch\<close> only adds the warning to the log (the state is otherwise the one
  \<open>enabled\<close> leaves, which is the state itself once \<open>enablingChecked\<close> is set); with
  \<open>enquedFaces \<noteq> maxBatch\<close> and the input blob present it returns with \<open>enquedFaces\<close> one
  larger. \<open>lm_submitRequest\<close> with \<open>enquedFaces \<noteq> 0\<close> returns with \<open>enquedFaces = 0\<close>. On a
  disabled detector \<open>lm_enqueue\<close> returns the state that \<open>enabled\<close> leaves, with
  \<open>enquedFaces\<close> as it was.
\<close>

theorem enquedFaces_between_zero_and_maxBatch:
  "(0 \<le> mb \<longrightarrow> faces_inv (FacialLandmarksDetection path device mb dyn async nt))
   \<and> (faces_inv s \<and> lm_enqueue m face s = Inr s' \<longrightarrow> faces_inv s')
   \<and> (faces_inv s \<and> lm_submitRequest s = Inr s' \<longrightarrow> faces_inv s')
   \<and> (faces_inv s \<and> lm_read nw s = Inr (nw', s') \<longrightarrow> faces_inv s')
   \<and> (faces_inv s \<longrightarrow> faces_inv (wait s))
   \<and> (fst (enabled s) \<and> enquedFaces s = maxBatch s \<longrightarrow>
        lm_enqueue m face s =
          Inr (log_to (Warn [Str ''Number of detected faces more than maximum('',
                             Num (maxBatch s),
                             Str '') processed by Facial Landmarks estimator''])
                 (snd (enabled s)))
        \<and> (enablingChecked s \<longrightarrow> snd (enabled s) = s))
   \<and> (fst (enabled s) \<and> enquedFaces s \<noteq> maxBatch s \<and>
        blobs (case request s of None \<Rightarrow> net s | Some r \<Rightarrow> r) (input s) = Some b \<longrightarrow>
        (\<exists>s'. lm_enqueue m face s = Inr s' \<and> enquedFaces s' = enquedFaces s + 1 \<and>
              maxBatch s' = maxBatch s))
   \<and> (enquedFaces s \<noteq> 0 \<and> (isBatchDynamic s \<longrightarrow> request s \<noteq> None) \<longrightarrow>
        (\<exists>s'. lm_submitRequest s = Inr s' \<and> enquedFaces s' = 0 \<and> maxBatch s' = maxBatch s))
   \<and> (\<not> fst (enabled s) \<longrightarrow>
        lm_enqueue m face s = Inr (snd (enabled s))
        \<and> enquedFaces (snd (enabled s)) = enquedFaces s)"
proof -
  have ctor: "0 \<le> mb \<longrightarrow> faces_inv (FacialLandmarksDetection path device mb dyn async nt)"
    by (simp add: faces_inv_def FacialLandmarksDetection_def BaseDetection_def
        base_detection.extend_def facial_landmarks_detection.fields_def)
  have rd: "faces_inv s \<and> lm_read nw s = Inr (nw', s') \<longrightarrow> faces_inv s'"
    by (auto simp: faces_inv_def dest: lm_read_keeps)
  have wt: "faces_inv s \<longrightarrow> faces_inv (wait s)"
    by (simp add: faces_inv_def wait_keeps_lm)
  have off: "\<not> fst (enabled s) \<longrightarrow>
        lm_enqueue m face s = Inr (snd (enabled s))
        \<and> enquedFaces (snd (enabled s)) = enquedFaces s"
    by (simp add: lm_enqueue_disabled)
  from ctor rd wt off show ?thesis
    using lm_enqueue_inv[of s m face s'] lm_submitRequest_inv[of s s']
      lm_enqueue_full[of s m face] enabled_checked[of s]
      lm_enqueue_room[of s b m face] lm_submitRequest_resets[of s]
    by blast
qed

lemma example_landmarks_facts:
  "fst (enabled example_landmarks)"
  "enablingChecked example_landmarks"
  "faces_inv example_landmarks"
  "enquedFaces example_landmarks = 0"
  "maxBatch example_landmarks = 2"
  "isBatchDynamic example_landmarks"
  "request example_landmarks = Some example_landmarks_request"
  "input example_landmarks = ''data''"
  "outputFacialLandmarksBlobName example_landmarks = ''align_fc3''"
  "blobs example_landmarks_request ''data'' = Some \<lparr>dims = [], buffer = []\<rparr>"
  "blobs example_landmarks_request ''align_fc3'' = Some example_landmarks_blob"
  by (simp_all add: example_landmarks_def example_landmarks_request_def enabled_value
        faces_inv_def FacialLandmarksDetection_def BaseDetection_def
        base_detection.extend_def facial_landmarks_detection.fields_def)

theorem enquedFaces_between_zero_and_maxBatch_witness:
  "faces_inv example_landmarks
   \<and> map_sum id enquedFaces
        (lm_enqueue example_matU8ToBlob \<lparr>cols = 1, rows = 1, pixels = [7]\<rparr> example_landmarks)
       = Inr 1
   \<and> lm_enqueue example_matU8ToBlob \<lparr>cols = 1, rows = 1, pixels = [7]\<rparr>
        (example_landmarks\<lparr>enquedFaces := 2\<rparr>)
       = Inr (log_to (Warn [Str ''Number of detected faces more than maximum('', Num 2,
                            Str '') processed by Facial Landmarks estimator''])
               (example_landmarks\<lparr>enquedFaces := 2\<rparr>))
   \<and> map_sum id enquedFaces (lm_submitRequest (example_landmarks\<lparr>enquedFaces := 2\<rparr>)) = Inr 0
   \<and> map_sum id (map_option calls \<circ> request)
        (lm_submitRequest (example_landmarks\<lparr>enquedFaces := 2\<rparr>)) = Inr (Some [SetBatch 2, Infer])
   \<and> map_sum id enquedFaces
        (lm_enqueue example_matU8ToBlob \<lparr>cols = 1, rows = 1, pixels = [7]\<rparr>
           (FacialLandmarksDetection [] ''CPU'' 2 True False example_landmarks_request))
       = Inr 0"
proof -
  have full: "fst (enabled (example_landmarks\<lparr>enquedFaces := 2\<rparr>))"
    "enablingChecked (example_landmarks\<lparr>enquedFaces := 2\<rparr>)"
    "enquedFaces (example_landmarks\<lparr>enquedFaces := 2\<rparr>)
       = maxBatch (example_landmarks\<lparr>enquedFaces := 2\<rparr>)"
    "isBatchDynamic (example_landmarks\<lparr>enquedFaces := 2\<rparr>)"
    "request (example_landmarks\<lparr>enquedFaces := 2\<rparr>) = Some example_landmarks_request"
    using example_landmarks_facts by (simp_all add: enabled_value)
  have room: "blobs (case request example_landmarks of None \<Rightarrow> net example_landmarks
                     | Some r \<Rightarrow> r) (input example_landmarks) = Some \<lparr>dims = [], buffer = []\<rparr>"
    by (simp add: example_landmarks_facts)
  have calls: "map_sum id (map_option calls \<circ> request)
        (lm_submitRequest (example_landmarks\<lparr>enquedFaces := 2\<rparr>)) = Inr (Some [SetBatch 2, Infer])"
    using full example_landmarks_facts
    by (simp add: lm_submitRequest_def request_submitRequest call_request_def
        example_landmarks_request_def example_landmarks_def FacialLandmarksDetection_def
        BaseDetection_def base_detection.extend_def facial_landmarks_detection.fields_def
        enabled_value)
  note T0 = enquedFaces_between_zero_and_maxBatch
         [of 2 "''landmarks.xml''" "''CPU''" True False example_landmarks_request
             example_landmarks example_matU8ToBlob "\<lparr>cols = 1, rows = 1, pixels = [7]\<rparr>" _ _ _
             "\<lparr>dims = [], buffer = []\<rparr>"]
  note T2 = enquedFaces_between_zero_and_maxBatch
         [of 2 "''landmarks.xml''" "''CPU''" True False example_landmarks_request
             "example_landmarks\<lparr>enquedFaces := 2\<rparr>" example_matU8ToBlob
             "\<lparr>cols = 1, rows = 1, pixels = [7]\<rparr>"]
  note grow = T0[THEN conjunct2, THEN conjunct2, THEN conjunct2, THEN conjunct2,
                 THEN conjunct2, THEN conjunct2, THEN conjunct1, rule_format]
  note warn = T2[THEN conjunct2, THEN conjunct2, THEN conjunct2, THEN conjunct2,
                 THEN conjunct2, THEN conjunct1, rule_format]
  note reset = T2[THEN conjunct2, THEN conjunct2, THEN conjunct2, THEN conjunct2,
                  THEN conjunct2, THEN conjunct2, THEN conjunct2, THEN conjunct1, rule_format]
  have one: "map_sum id enquedFaces
        (lm_enqueue example_matU8ToBlob \<lparr>cols = 1, rows = 1, pixels = [7]\<rparr> example_landmarks)
       = Inr 1"
  proof -
    from grow room example_landmarks_facts(1,4,5)
    obtain s' where "lm_enqueue example_matU8ToBlob \<lparr>cols = 1, rows = 1, pixels = [7]\<rparr>
                       example_landmarks = Inr s'"
      and "enquedFaces s' = enquedFaces example_landmarks + 1"
      by auto
    then show ?thesis by (simp add: example_landmarks_facts(4))
  qed
  have two: "lm_enqueue example_matU8ToBlob \<lparr>cols = 1, rows = 1, pixels = [7]\<rparr>
        (example_landmarks\<lparr>enquedFaces := 2\<rparr>)
       = Inr (log_to (Warn [Str ''Number of detected faces more than maximum('', Num 2,
                            Str '') processed by Facial Landmarks estimator''])
               (example_landmarks\<lparr>enquedFaces := 2\<rparr>))"
    using warn full(1-3) by (simp add: example_landmarks_facts(5))
  have three: "map_sum id enquedFaces (lm_submitRequest (example_landmarks\<lparr>enquedFaces := 2\<rparr>))
                 = Inr 0"
  proof -
    from reset full(5) obtain s'
      where "lm_submitRequest (example_landmarks\<lparr>enquedFaces := 2\<rparr>) = Inr s'"
        and "enquedFaces s' = 0"
      by auto
    then show ?thesis by simp
  qed
  note T3 = enquedFaces_between_zero_and_maxBatch
         [of 2 "''landmarks.xml''" "''CPU''" True False example_landmarks_request
             "FacialLandmarksDetection [] ''CPU'' 2 True False example_landmarks_request"
             example_matU8ToBlob "\<lparr>cols = 1, rows = 1, pixels = [7]\<rparr>"]
  note idle = T3[THEN conjunct2, THEN conjunct2, THEN conjunct2, THEN conjunct2,
                 THEN conjunct2, THEN conjunct2, THEN conjunct2, THEN conjunct2, rule_format]
  have off: "\<not> fst (enabled
               (FacialLandmarksDetection [] ''CPU'' 2 True False example_landmarks_request))"
    by (simp add: enabled_value FacialLandmarksDetection_def BaseDetection_def
        base_detection.extend_def facial_landmarks_detection.fields_def)
  have four: "map_sum id enquedFaces
        (lm_enqueue example_matU8ToBlob \<lparr>cols = 1, rows = 1, pixels = [7]\<rparr>
           (FacialLandmarksDetection [] ''CPU'' 2 True False example_landmarks_request))
       = Inr 0"
    using idle[OF off]
    by (simp add: FacialLandmarksDetection_def BaseDetection_def
        base_detection.extend_def facial_landmarks_detection.fields_def)
  from example_landmarks_facts(3) one two three calls four show ?thesis
    by (intro conjI)
qed


text \<open>
  C7. For a face index \<open>idx\<close> whose slice lies inside the output buffer, \<open>landmarks_at\<close>
  returns a vector of exactly \<open>n_lm\<close> elements, \<open>n_lm\<close> being the first entry of the blob's
  \<open>dims\<close>, and its \<open>i\<close>-th element is the buffer's value at offset \<open>i + n_lm * idx\<close>.
\<close>

theorem landmarks_at_reads_slice:
  assumes "request s = Some r" and "blobs r (outputFacialLandmarksBlobName s) = Some b"
    and "dims b = n_lm # ds"
    and "0 \<le> idx" and "n_lm * nat idx + n_lm \<le> length (buffer b)"
    and "length (buffer b) < 2 ^ 64"
  shows "\<exists>v. landmarks_at s idx = Inr v \<and> length v = n_lm \<and>
             (\<forall>i<n_lm. v ! i = buffer b ! (i + n_lm * nat idx))"
  by (simp add: landmarks_at_in_range[OF assms])

theorem landmarks_at_reads_slice_witness:
  "\<exists>v. landmarks_at example_landmarks 1 = Inr v \<and> length v = 3 \<and>
        v ! 0 = 4/10 \<and> v ! 1 = 5/10 \<and> v ! 2 = 6/10"
proof -
  have "dims example_landmarks_blob = [3, 2]"
    "buffer example_landmarks_blob = [1/10, 2/10, 3/10, 4/10, 5/10, 6/10]"
    by (simp_all add: example_landmarks_blob_def)
  with landmarks_at_reads_slice
         [of example_landmarks example_landmarks_request example_landmarks_blob 3 "[2]" 1]
       example_landmarks_facts(7,9,11)
  obtain v where "landmarks_at example_landmarks 1 = Inr v" "length v = 3"
    "\<forall>i<3. v ! i = [1/10, 2/10, 3/10, 4/10, 5/10, 6/10 :: rat] ! (i + 3)"
    by auto
  then show ?thesis by (intro exI[of _ v]) simp
qed

section \<open>Facts about the two \<^verbatim>\<open>read\<close> functions\<close>

lemma check_outputs_single:
  "check_outputs [out] [''align_fc3'' \<mapsto> False] ''align_fc3'' =
     (case creator (snd out) of
        None \<Rightarrow> Inl (LogicError [Str ''Layer pointer is invalid''])
      | Some layer \<Rightarrow>
          if layer_name layer \<noteq> ''align_fc3'' then
            Inl (LogicError [Str ''Facial Landmarks Estimation network output layer unknown: '',
                             Str (layer_name layer), Str '', should be '', Str ''align_fc3''])
          else if layer_type layer \<noteq> ''FullyConnected'' then
            Inl (LogicError [Str ''Facial Landmarks Estimation network output layer ('',
                             Str (layer_name layer), Str '') has invalid type: '',
                             Str (layer_type layer), Str '', should be FullyConnected''])
          else
            (case out_num layer of
               None \<Rightarrow> Inl (LogicError [Str ''Fully connected layer is not valid''])
             | Some n \<Rightarrow>
                 if n \<noteq> 70 then
                   Inl (LogicError [Str ''Facial Landmarks Estimation network output layer ('',
                                    Str (layer_name layer), Str '') has invalid out-size='',
                                    Num (int n), Str '', should be 70''])
                 else Inr [''align_fc3'' \<mapsto> True]))"
  by (auto split: option.splits)

lemma lm_read_cases:
  assumes "outputFacialLandmarksBlobName s = ''align_fc3''"
  shows "(lm_malformed nw \<longrightarrow> (\<exists>m. lm_read nw s = Inl (LogicError m)))
       \<and> (\<not> lm_malformed nw \<longrightarrow> (\<exists>nw' s'. lm_read nw s = Inr (nw', s')))"
proof (cases "length (inputsInfo nw) = 1 \<and> length (outputsInfo nw) = 1")
  case False
  then show ?thesis
    by (auto simp: lm_malformed_def lm_read_def Let_def)
next
  case True
  then obtain out where out: "outputsInfo nw = [out]"
    by (cases "outputsInfo nw") auto
  with True assms show ?thesis
    by (simp add: lm_malformed_def lm_read_def Let_def log_to_def check_outputs_single
          split: option.splits)
qed


text \<open>
  C4, as stated, fails: \<open>lm_read\<close> has two more throws than the claim lists. An output
  whose creator layer is named \<open>align_fc3\<close> and typed \<open>FullyConnected\<close> but is not a
  \<^verbatim>\<open>FullyConnectedLayer\<close> object, and an output without creator layer, both make it throw
  \<^verbatim>\<open>std::logic_error\<close> although none of the listed conditions holds.
\<close>

theorem lm_read_throws_outside_list:
  "lm_read (landmarks_network (Some (example_fc_layer\<lparr>out_num := None\<rparr>))) example_landmarks
     = Inl (LogicError [Str ''Fully connected layer is not valid''])
   \<and> \<not> lm_listed_malformed (landmarks_network (Some (example_fc_layer\<lparr>out_num := None\<rparr>)))
   \<and> lm_read (landmarks_network None) example_landmarks
     = Inl (LogicError [Str ''Layer pointer is invalid''])
   \<and> \<not> lm_listed_malformed (landmarks_network None)"
  by (simp add: lm_read_def lm_listed_malformed_def landmarks_network_def example_fc_layer_def
        Let_def log_to_def example_landmarks_facts)

text \<open>
  C4, amended. \<open>lm_read\<close> throws \<^verbatim>\<open>std::logic_error\<close> exactly when the network has a number
  of inputs or of outputs different from one, or its output has no creator layer, or that
  layer is not named \<open>align_fc3\<close>, or is not of type \<open>FullyConnected\<close>, or is not a
  \<^verbatim>\<open>FullyConnectedLayer\<close> object, or has an out-size different from 70; otherwise it returns
  the network.
\<close>

theorem lm_read_throws_iff_malformed:
  assumes "outputFacialLandmarksBlobName s = ''align_fc3''"
  shows "((\<exists>m. lm_read nw s = Inl (LogicError m)) \<longleftrightarrow> lm_malformed nw)
       \<and> (\<not> lm_malformed nw \<longrightarrow> (\<exists>nw' s'. lm_read nw s = Inr (nw', s')))"
  using lm_read_cases[OF assms, of nw] by auto

theorem lm_read_throws_iff_malformed_witness:
  "\<not> lm_malformed (landmarks_network (Some example_fc_layer))
   \<and> (\<exists>nw' s'. lm_read (landmarks_network (Some example_fc_layer)) example_landmarks
                  = Inr (nw', s'))
   \<and> lm_malformed (landmarks_network (Some (example_fc_layer\<lparr>out_num := Some 68\<rparr>)))
   \<and> (\<exists>m. lm_read (landmarks_network (Some (example_fc_layer\<lparr>out_num := Some 68\<rparr>)))
              example_landmarks = Inl (LogicError m))"
proof -
  have ok: "\<not> lm_malformed (landmarks_network (Some example_fc_layer))"
    and bad: "lm_malformed (landmarks_network (Some (example_fc_layer\<lparr>out_num := Some 68\<rparr>)))"
    by (simp_all add: lm_malformed_def landmarks_network_def example_fc_layer_def)
  from lm_read_throws_iff_malformed[OF example_landmarks_facts(9),
         of "landmarks_network (Some example_fc_layer)"]
       lm_read_throws_iff_malformed[OF example_landmarks_facts(9),
         of "landmarks_network (Some (example_fc_layer\<lparr>out_num := Some 68\<rparr>))"]
       ok bad
  show ?thesis by blast
qed

lemma fd_read_cases:
  assumes "length (outputsInfo nw) = 1 \<longrightarrow>
             layers nw (fst (hd (outputsInfo nw))) \<noteq> None \<and>
             4 \<le> length (tensor_dims (snd (hd (outputsInfo nw))))"
  shows "(fd_listed_malformed nw \<longrightarrow> (\<exists>m. fd_read nw label_file s = Inl (LogicError m)))
       \<and> (\<not> fd_listed_malformed nw \<longrightarrow> (\<exists>nw' s'. fd_read nw label_file s = Inr (nw', s')))"
proof (cases "length (inputsInfo nw) = 1 \<and> length (outputsInfo nw) = 1")
  case False
  then show ?thesis
    by (auto simp: fd_listed_malformed_def fd_read_def Let_def)
next
  case True
  with assms obtain l where l: "layers nw (fst (hd (outputsInfo nw))) = Some l"
    and len: "4 \<le> length (tensor_dims (snd (hd (outputsInfo nw))))"
    by auto
  define ds where "ds = tensor_dims (snd (hd (outputsInfo nw)))"
  from len have ne: "ds \<noteq> []" by (auto simp: ds_def)
  have lst: "length ds = 4 \<Longrightarrow> last ds = ds ! 3"
    by (simp add: last_conv_nth ne)
  from len have dcase: "(case ds of [] \<Rightarrow> True | d # ds' \<Rightarrow> last (d # ds') \<noteq> 7 \<or> length (d # ds') \<noteq> 4)
                  = (last ds \<noteq> 7 \<or> length ds \<noteq> 4)"
    using ne by (cases ds) simp_all
  show ?thesis
    using True l len lst dcase
    by (auto simp: fd_listed_malformed_def fd_read_def Let_def log_to_def ds_def
          split: option.splits)
qed



lemma fd_read_four_dimensions:
  "\<not> fd_listed_malformed (detection_network [1, 1, 200, 7])
   \<and> map_sum id (\<lambda>p. (maxProposalCount (snd p), objectSize (snd p), output_name (snd p), input (snd p)))
       (fd_read (detection_network [1, 1, 200, 7]) []
        (FaceDetection ''face-detection.xml'' ''CPU'' 1 False False (1/2) False
           \<lparr>blobs = Map.empty, calls = []\<rparr>))
      = Inr (200, 7, ''detection_out'', ''data'')"
  by (simp add: fd_listed_malformed_def fd_read_def detection_network_def
        example_detection_layer_def Let_def log_to_def)

end
